theory Spec2Isabelle
  imports Complex_Main "HOL-Library.Multiset"
begin

section \<open>Data model of \<^verbatim>\<open>spoof.py\<close>\<close>

text \<open>
  Prices, sizes and timestamps are Python floats.  They are modelled as reals, the
  number type of the specification's data model, so every statement below is about
  exact arithmetic: comparisons are as in the program, while the rounding of
  \<^verbatim>\<open>+\<close>, \<^verbatim>\<open>-\<close> and \<^verbatim>\<open>/\<close> on binary floats is not modelled.  The wall-clock reading
  taken when an \<^verbatim>\<open>Order\<close> is created (\<^verbatim>\<open>default_factory=time.time\<close>) is an argument
  of \<open>SimExchange_place_limit\<close>.  The \<^verbatim>\<open>ts\<close> entry of a trade dictionary is a second
  clock reading that nothing reads back; a trade keeps its price and size only.

  The fields \<^verbatim>\<open>id\<close> and \<^verbatim>\<open>size\<close> of \<^verbatim>\<open>Order\<close> are \<open>oid\<close> and \<open>osize\<close> here, and
  the methods \<^verbatim>\<open>_insert\<close> and \<^verbatim>\<open>_match\<close> are \<open>sim_insert\<close> and \<open>sim_match\<close>.
\<close>

datatype Side = BUY | SELL

datatype Status = Open | Filled | Cancelled

record Order =
  oid :: string
  side :: Side
  price :: real
  osize :: real
  filled :: real
  status :: Status
  ts :: real

record Trade =
  trade_price :: real
  trade_size :: real

text \<open>
  \<^verbatim>\<open>SimExchange\<close> holds \<^verbatim>\<open>book[Side.BUY]\<close>, \<^verbatim>\<open>book[Side.SELL]\<close> (deques of
  \<^verbatim>\<open>Order\<close> objects) and \<^verbatim>\<open>trades\<close>.  Every \<^verbatim>\<open>Order\<close> object is created in
  \<^verbatim>\<open>place_limit\<close>, put in one deque once, and referenced from nowhere else
  (\<^verbatim>\<open>place_limit\<close> returns the id string only), so mutating \<^verbatim>\<open>buy.filled\<close> is an update
  of the head element of the list.  The field \<open>gone\<close> is a history variable: the
  \<^verbatim>\<open>Order\<close> objects that have left the book, in the state in which the exchange left
  them, oldest first.  No operation reads it.
\<close>

record SimExchange =
  buy_q :: "Order list"
  sell_q :: "Order list"
  trades :: "Trade list"
  gone :: "Order list"

definition SimExchange_init :: SimExchange where
  "SimExchange_init = \<lparr>buy_q = [], sell_q = [], trades = [], gone = []\<rparr>"

definition new_order :: "string \<Rightarrow> Side \<Rightarrow> real \<Rightarrow> real \<Rightarrow> real \<Rightarrow> Order" where
  "new_order cid sd px sz now =
     \<lparr>oid = cid, side = sd, price = px, osize = sz, filled = 0, status = Open, ts = now\<rparr>"

section \<open>\<^verbatim>\<open>SimExchange._insert\<close>\<close>

definition cmp_of :: "Side \<Rightarrow> real \<Rightarrow> real \<Rightarrow> bool" where
  "cmp_of sd p1 p2 = (case sd of BUY \<Rightarrow> p1 > p2 | SELL \<Rightarrow> p1 < p2)"

text \<open>The \<^verbatim>\<open>while idx < len(q) and cmp(q[idx].price, order.price)\<close> loop.\<close>

function insert_idx :: "(real \<Rightarrow> real \<Rightarrow> bool) \<Rightarrow> real \<Rightarrow> Order list \<Rightarrow> nat \<Rightarrow> nat" where
  "insert_idx cmp p q idx =
     (if idx < length q \<and> cmp (price (q ! idx)) p then insert_idx cmp p q (idx + 1) else idx)"
  by pat_completeness auto
termination
  by (relation "measure (\<lambda>(cmp, p, q, idx). length q - idx)") auto

declare insert_idx.simps [simp del]

text \<open>\<^verbatim>\<open>q.insert(idx, order)\<close> with \<open>idx \<le> len(q)\<close>.\<close>

definition queue_insert :: "Order \<Rightarrow> Order list \<Rightarrow> Order list" where
  "queue_insert ord q =
     (let idx = insert_idx (cmp_of (side ord)) (price ord) q 0
      in take idx q @ ord # drop idx q)"

definition sim_insert :: "Order \<Rightarrow> SimExchange \<Rightarrow> SimExchange" where
  "sim_insert ord ex =
     (case side ord of
        BUY \<Rightarrow> ex\<lparr>buy_q := queue_insert ord (buy_q ex)\<rparr>
      | SELL \<Rightarrow> ex\<lparr>sell_q := queue_insert ord (sell_q ex)\<rparr>)"

section \<open>\<^verbatim>\<open>SimExchange._match\<close>\<close>

text \<open>
  The loop continues while both deques are non-empty and the \<^verbatim>\<open>break\<close> test
  \<^verbatim>\<open>buy.price < sell.price\<close> fails.
\<close>

definition crossed :: "SimExchange \<Rightarrow> bool" where
  "crossed ex =
     (case buy_q ex of [] \<Rightarrow> False
      | b # _ \<Rightarrow> (case sell_q ex of [] \<Rightarrow> False | s # _ \<Rightarrow> \<not> price b < price s))"

definition match_qty :: "Order \<Rightarrow> Order \<Rightarrow> real" where
  "match_qty b s = min (osize b - filled b) (osize s - filled s)"

text \<open>
  \<^verbatim>\<open>o.filled += qty\<close>, then \<^verbatim>\<open>if o.filled >= o.size: o.status = "filled"\<close>.
\<close>

definition fill :: "real \<Rightarrow> Order \<Rightarrow> Order" where
  "fill qty ord =
     (let o1 = ord\<lparr>filled := filled ord + qty\<rparr>
      in if filled o1 \<ge> osize o1 then o1\<lparr>status := Filled\<rparr> else o1)"

text \<open>One pass through the loop body, for a state in which the loop condition holds.\<close>

definition match_step :: "SimExchange \<Rightarrow> SimExchange" where
  "match_step ex =
     (case (buy_q ex, sell_q ex) of
        (b # bq, s # sq) \<Rightarrow>
          (let qty = match_qty b s;
               px = (price b + price s) / 2;
               b' = fill qty b;
               s' = fill qty s;
               bdone = (filled b' \<ge> osize b');
               sdone = (filled s' \<ge> osize s')
           in \<lparr>buy_q = (if bdone then bq else b' # bq),
               sell_q = (if sdone then sq else s' # sq),
               trades = trades ex @ [\<lparr>trade_price = px, trade_size = qty\<rparr>],
               gone = gone ex @ (if bdone then [b'] else []) @ (if sdone then [s'] else [])\<rparr>)
      | _ \<Rightarrow> ex)"

definition resting :: "SimExchange \<Rightarrow> nat" where
  "resting ex = length (buy_q ex) + length (sell_q ex)"

function sim_match :: "SimExchange \<Rightarrow> SimExchange" where
  "sim_match ex = (if crossed ex then sim_match (match_step ex) else ex)"
  by pat_completeness auto
termination
proof (relation "measure resting")
  show "wf (measure resting)" by simp
next
  fix ex :: SimExchange
  assume "crossed ex"
  then obtain b bq s sq where q: "buy_q ex = b # bq" "sell_q ex = s # sq"
    by (auto simp: crossed_def split: list.splits)
  have "filled b + match_qty b s \<ge> osize b \<or> filled s + match_qty b s \<ge> osize s"
    by (simp add: match_qty_def min_def)
  then have "resting (match_step ex) < resting ex"
    using q by (auto simp: match_step_def resting_def fill_def Let_def)
  then show "(match_step ex, ex) \<in> measure resting" by simp
qed

declare sim_match.simps [simp del]

section \<open>The public operations of \<^verbatim>\<open>SimExchange\<close>\<close>

definition SimExchange_place_limit ::
  "string \<Rightarrow> Side \<Rightarrow> real \<Rightarrow> real \<Rightarrow> string \<Rightarrow> real \<Rightarrow> SimExchange \<Rightarrow> string \<times> SimExchange" where
  "SimExchange_place_limit symbol sd px sz cid now ex =
     (let ord = new_order cid sd px sz now
      in (oid ord, sim_match (sim_insert ord ex)))"

text \<open>
  Exceptions are values.  The message texts of the source contain typographic hyphens and
  dashes, written here as \<open>-\<close>.
\<close>

datatype py_exc = RuntimeError string | NotImplementedError string | ValueError string

text \<open>
  \<^verbatim>\<open>deque.remove(value)\<close> deletes the first element equal to \<open>value\<close> and raises
  \<^verbatim>\<open>ValueError\<close> when there is none.  \<^verbatim>\<open>Order\<close> is a dataclass, so equality is
  equality of all fields.
\<close>

definition deque_remove :: "Order \<Rightarrow> Order list \<Rightarrow> py_exc + Order list" where
  "deque_remove x q =
     (if x \<in> set q then Inr (remove1 x q) else Inl (ValueError ''deque.remove(x): x not in deque''))"

text \<open>
  Index of the first order \<open>o\<close> of the deque (scanned through the copy \<^verbatim>\<open>list(q)\<close>)
  with \<^verbatim>\<open>o.id == order_id and o.status == "open"\<close>.
\<close>

fun find_open :: "string \<Rightarrow> Order list \<Rightarrow> nat option" where
  "find_open order_id [] = None"
| "find_open order_id (x # q) =
     (if oid x = order_id \<and> status x = Open then Some 0
      else map_option Suc (find_open order_id q))"

text \<open>
  The inner loop of \<^verbatim>\<open>cancel\<close> on one deque: \<open>None\<close> when the loop ends without a hit,
  otherwise the cancelled order and the outcome of \<^verbatim>\<open>q.remove(o)\<close>.
\<close>

definition cancel_in :: "string \<Rightarrow> Order list \<Rightarrow> (Order \<times> (py_exc + Order list)) option" where
  "cancel_in order_id q =
     (case find_open order_id q of
        None \<Rightarrow> None
      | Some i \<Rightarrow>
          (let x = (q ! i)\<lparr>status := Cancelled\<rparr>
           in Some (x, deque_remove x (q[i := x]))))"

text \<open>\<^verbatim>\<open>for q in self.book.values()\<close> visits the BUY deque, then the SELL deque.\<close>

definition SimExchange_cancel :: "string \<Rightarrow> SimExchange \<Rightarrow> py_exc + SimExchange" where
  "SimExchange_cancel order_id ex =
     (case cancel_in order_id (buy_q ex) of
        Some (x, r) \<Rightarrow>
          (case r of Inl e \<Rightarrow> Inl e
           | Inr q' \<Rightarrow> Inr (ex\<lparr>buy_q := q', gone := gone ex @ [x]\<rparr>))
      | None \<Rightarrow>
          (case cancel_in order_id (sell_q ex) of
             Some (x, r) \<Rightarrow>
               (case r of Inl e \<Rightarrow> Inl e
                | Inr q' \<Rightarrow> Inr (ex\<lparr>sell_q := q', gone := gone ex @ [x]\<rparr>))
           | None \<Rightarrow> Inr ex))"

text \<open>
  \<^verbatim>\<open>get_top\<close> returns the dictionary \<^verbatim>\<open>{"bid": bid, "ask": ask}\<close>; a non-empty deque
  is true.  The exchange is returned with it, as the other calls return theirs.
\<close>

record Top =
  bid :: real
  ask :: real

definition SimExchange_get_top :: "string \<Rightarrow> SimExchange \<Rightarrow> Top \<times> SimExchange" where
  "SimExchange_get_top symbol ex =
     (let b = (case buy_q ex of x # _ \<Rightarrow> price x | [] \<Rightarrow> 49999.5);
          a = (case sell_q ex of x # _ \<Rightarrow> price x | [] \<Rightarrow> 50000.5)
      in (\<lparr>bid = b, ask = a\<rparr>, ex))"

text \<open>Sequences of calls on one \<^verbatim>\<open>SimExchange\<close>; an exception ends the sequence.\<close>

datatype Call =
    PlaceLimit string Side real real string real
  | Cancel string

fun call :: "Call \<Rightarrow> SimExchange \<Rightarrow> py_exc + SimExchange" where
  "call (PlaceLimit symbol sd px sz cid now) ex =
     Inr (snd (SimExchange_place_limit symbol sd px sz cid now ex))"
| "call (Cancel order_id) ex = SimExchange_cancel order_id ex"

fun run :: "Call list \<Rightarrow> SimExchange \<Rightarrow> py_exc + SimExchange" where
  "run [] ex = Inr ex"
| "run (c # cs) ex = (case call c ex of Inl e \<Rightarrow> Inl e | Inr ex' \<Rightarrow> run cs ex')"


section \<open>\<^verbatim>\<open>LiveExchange\<close> and the start of \<^verbatim>\<open>run_strategy\<close>\<close>

record LiveExchange =
  key :: string
  secret :: string
  paper :: bool

text \<open>The constructor; \<open>None\<close> is a call that leaves \<^verbatim>\<open>paper\<close> to its default.\<close>

definition LiveExchange_new :: "string \<Rightarrow> string \<Rightarrow> bool option \<Rightarrow> LiveExchange" where
  "LiveExchange_new api_key api_secret paper_arg =
     \<lparr>key = api_key, secret = api_secret,
      paper = (case paper_arg of None \<Rightarrow> True | Some p \<Rightarrow> p)\<rparr>"

datatype LogRecord =
    LogInfo string
  | LogDebugPlace Side real real string
  | LogDebugCancel string

definition LiveExchange_connect :: "LiveExchange \<Rightarrow> py_exc + LogRecord list" where
  "LiveExchange_connect lx =
     (if paper lx
      then Inr [LogInfo ''LiveExchange running in DRY-RUN mode - no real orders sent.'']
      else Inl (RuntimeError
        ''Live trading disabled in this stub. Enable paper mode or implement real API calls at your own risk.''))"

definition LiveExchange_get_top :: "LiveExchange \<Rightarrow> string \<Rightarrow> py_exc + Top" where
  "LiveExchange_get_top lx symbol = Inl (NotImplementedError ''Fill with venue top-of-book request'')"

definition LiveExchange_place_limit ::
  "LiveExchange \<Rightarrow> string \<Rightarrow> Side \<Rightarrow> real \<Rightarrow> real \<Rightarrow> string \<Rightarrow> py_exc + string \<times> LogRecord list" where
  "LiveExchange_place_limit lx symbol sd px sz cid =
     (if paper lx then Inr (cid, [LogDebugPlace sd sz px cid])
      else Inl (RuntimeError ''Live order placement not implemented''))"

definition LiveExchange_cancel :: "LiveExchange \<Rightarrow> string \<Rightarrow> py_exc + LogRecord list" where
  "LiveExchange_cancel lx order_id =
     (if paper lx then Inr [LogDebugCancel order_id]
      else Inl (RuntimeError ''Live cancel not implemented''))"

text \<open>The class of an exception: what an \<^verbatim>\<open>except\<close> clause or \<^verbatim>\<open>type(e)\<close> sees.\<close>

datatype exc_kind = KRuntimeError | KNotImplementedError | KValueError

fun kind_of :: "py_exc \<Rightarrow> exc_kind" where
  "kind_of (RuntimeError _) = KRuntimeError"
| "kind_of (NotImplementedError _) = KNotImplementedError"
| "kind_of (ValueError _) = KValueError"

text \<open>
  \<^verbatim>\<open>os.getenv(name, default)\<close> on an environment, and \<^verbatim>\<open>str.lower\<close> on the letters
  \<open>A\<close> to \<open>Z\<close> (no other character is mapped to a letter of \<open>true\<close>).
\<close>

definition getenv :: "(string \<rightharpoonup> string) \<Rightarrow> string \<Rightarrow> string \<Rightarrow> string" where
  "getenv env name dflt = (case env name of None \<Rightarrow> dflt | Some v \<Rightarrow> v)"

definition lower_char :: "char \<Rightarrow> char" where
  "lower_char c =
     (case map_of (zip ''ABCDEFGHIJKLMNOPQRSTUVWXYZ'' ''abcdefghijklmnopqrstuvwxyz'') c of
        None \<Rightarrow> c
      | Some d \<Rightarrow> d)"

definition lower :: "string \<Rightarrow> string" where
  "lower s = map lower_char s"

datatype Exchange = Sim SimExchange | Live LiveExchange

text \<open>
  \<^verbatim>\<open>run_strategy\<close> up to the point where it enters the trading loop: it builds the
  exchange from \<^verbatim>\<open>args.mode\<close> and the environment and awaits \<^verbatim>\<open>ex.connect()\<close>, outside
  any \<^verbatim>\<open>try\<close>.  \<open>Inl\<close> is the exception that leaves \<^verbatim>\<open>run_strategy\<close>; \<open>Inr\<close> is the
  exchange the loop is entered with.
\<close>

definition run_strategy_connect :: "string \<Rightarrow> (string \<rightharpoonup> string) \<Rightarrow> py_exc + Exchange" where
  "run_strategy_connect mode env =
     (if mode = ''sim'' then Inr (Sim SimExchange_init)
      else
        (let lx = LiveExchange_new (getenv env ''EX_KEY'' []) (getenv env ''EX_SECRET'' [])
                    (Some (lower (getenv env ''EX_PAPER'' ''true'') = ''true''))
         in case LiveExchange_connect lx of Inl e \<Rightarrow> Inl e | Inr _ \<Rightarrow> Inr (Live lx)))"

section \<open>Predicates on books and calls\<close>





text \<open>The open orders of the book that carry a given id.\<close>

definition open_with_id :: "string \<Rightarrow> SimExchange \<Rightarrow> Order list" where
  "open_with_id order_id ex =
     filter (\<lambda>x. oid x = order_id \<and> status x = Open) (buy_q ex @ sell_q ex)"



definition total_traded :: "SimExchange \<Rightarrow> real" where
  "total_traded ex = sum_list (map trade_size (trades ex))"


definition scenario_C_book :: SimExchange where
  "scenario_C_book =
     \<lparr>buy_q = [\<lparr>oid = ''b1'', side = BUY, price = 101, osize = 2, filled = 1,
                 status = Open, ts = 1\<rparr>],
      sell_q = [],
      trades = [\<lparr>trade_price = 100.5, trade_size = 1\<rparr>],
      gone = [\<lparr>oid = ''s1'', side = SELL, price = 100, osize = 1, filled = 1,
                status = Filled, ts = 2\<rparr>]\<rparr>"


text \<open>
  Two resting BUY orders placed under the same client id \<open>x\<close>, and the books after one
  and after two calls of \<^verbatim>\<open>cancel("x")\<close>.
\<close>

definition dup_id_calls :: "Call list" where
  "dup_id_calls =
     [PlaceLimit ''BTC/USDT'' BUY 100 1 ''x'' 1, PlaceLimit ''BTC/USDT'' BUY 99 1 ''x'' 2]"

definition dup_id_book :: SimExchange where
  "dup_id_book =
     \<lparr>buy_q = [new_order ''x'' BUY 100 1 1, new_order ''x'' BUY 99 1 2],
      sell_q = [], trades = [], gone = []\<rparr>"

definition dup_id_cancelled_once :: SimExchange where
  "dup_id_cancelled_once =
     \<lparr>buy_q = [new_order ''x'' BUY 99 1 2],
      sell_q = [], trades = [],
      gone = [(new_order ''x'' BUY 100 1 1)\<lparr>status := Cancelled\<rparr>]\<rparr>"

definition dup_id_cancelled_twice :: SimExchange where
  "dup_id_cancelled_twice =
     \<lparr>buy_q = [],
      sell_q = [], trades = [],
      gone = [(new_order ''x'' BUY 100 1 1)\<lparr>status := Cancelled\<rparr>,
              (new_order ''x'' BUY 99 1 2)\<lparr>status := Cancelled\<rparr>]\<rparr>"






text \<open>
  What \<^verbatim>\<open>place_limit\<close> fixes of an order when it creates it, and the orders created by a
  sequence of calls.
\<close>

definition order_key :: "Order \<Rightarrow> string \<times> Side \<times> real \<times> real \<times> real" where
  "order_key x = (oid x, side x, price x, osize x, ts x)"



section \<open>Basic facts\<close>

lemma fill_fields [simp]:
  "filled (fill qty ord) = filled ord + qty"
  "osize (fill qty ord) = osize ord"
  "price (fill qty ord) = price ord"
  "oid (fill qty ord) = oid ord"
  "side (fill qty ord) = side ord"
  "ts (fill qty ord) = ts ord"
  by (simp_all add: fill_def Let_def)




lemma insert_idx_takeWhile:
  "insert_idx cmp p q idx = idx + length (takeWhile (\<lambda>x. cmp (price x) p) (drop idx q))"
proof (induction cmp p q idx rule: insert_idx.induct)
  case (1 cmp p q idx)
  show ?case
  proof (cases "idx < length q \<and> cmp (price (q ! idx)) p")
    case True
    then have d: "drop idx q = q ! idx # drop (Suc idx) q"
      by (simp add: Cons_nth_drop_Suc)
    from True have "insert_idx cmp p q idx = insert_idx cmp p q (idx + 1)"
      by (subst insert_idx.simps) auto
    also have "\<dots> = idx + 1 + length (takeWhile (\<lambda>x. cmp (price x) p) (drop (idx + 1) q))"
      using "1.IH" True by simp
    finally show ?thesis using True d by simp
  next
    case False
    then have "insert_idx cmp p q idx = idx"
      by (subst insert_idx.simps) auto
    moreover have "takeWhile (\<lambda>x. cmp (price x) p) (drop idx q) = []"
    proof (cases "idx < length q")
      case True
      with False show ?thesis by (simp add: Cons_nth_drop_Suc [symmetric])
    qed simp
    ultimately show ?thesis by simp
  qed
qed

lemma queue_insert_takeWhile:
  "queue_insert ord q =
     takeWhile (\<lambda>x. cmp_of (side ord) (price x) (price ord)) q
     @ ord # dropWhile (\<lambda>x. cmp_of (side ord) (price x) (price ord)) q"
  by (simp add: queue_insert_def Let_def insert_idx_takeWhile
      takeWhile_eq_take [symmetric] dropWhile_eq_drop [symmetric])

lemma queue_insert_Nil [simp]: "queue_insert ord [] = [ord]"
  by (simp add: queue_insert_takeWhile)

lemma queue_insert_Cons:
  "queue_insert ord (x # q) =
     (if cmp_of (side ord) (price x) (price ord) then x # queue_insert ord q else ord # x # q)"
  by (simp add: queue_insert_takeWhile)

section \<open>Evaluation on concrete books\<close>

lemmas sim_eval =
  SimExchange_init_def SimExchange_place_limit_def new_order_def sim_insert_def
  queue_insert_Cons cmp_of_def sim_match.simps crossed_def match_step_def match_qty_def
  fill_def Let_def

section \<open>Claims about single calls\<close>

text \<open>
  C1 (price-time priority of \<^verbatim>\<open>_insert\<close>).  The scan stops at the first resting order
  whose price is not strictly better than the new one, so the new order is put in front
  of a resting order of the same price.  On an empty book, two BUY orders at price 100:
  the second one placed, \<open>b\<close>, is at the head of the BUY queue, ahead of the earlier
  \<open>a\<close>.
\<close>

theorem insert_equal_price_ahead_of_earlier:
  "buy_q (snd (SimExchange_place_limit ''BTC/USDT'' BUY 100 1 ''b'' 2
     (snd (SimExchange_place_limit ''BTC/USDT'' BUY 100 1 ''a'' 1 SimExchange_init)))) =
   [\<lparr>oid = ''b'', side = BUY, price = 100, osize = 1, filled = 0, status = Open, ts = 2\<rparr>,
    \<lparr>oid = ''a'', side = BUY, price = 100, osize = 1, filled = 0, status = Open, ts = 1\<rparr>]"
  by (simp add: sim_eval)

text \<open>
  C5 (scenario C).  From the empty book, BUY 101 size 2 (\<open>b1\<close>) then SELL 100 size 1
  (\<open>s1\<close>): the second call returns the id \<open>s1\<close> and leaves one trade of price 100.5 and
  size 1; \<open>b1\<close> is open with \<open>filled = 1\<close> of size 2 and is the only order of the BUY
  queue; the SELL queue is empty; \<open>s1\<close> is filled and has left the book.
\<close>

theorem scenario_C_partial_fill:
  "SimExchange_place_limit symbol SELL 100 1 ''s1'' t2
     (snd (SimExchange_place_limit symbol BUY 101 2 ''b1'' t1 SimExchange_init)) =
   (''s1'',
    \<lparr>buy_q = [\<lparr>oid = ''b1'', side = BUY, price = 101, osize = 2, filled = 1,
                status = Open, ts = t1\<rparr>],
     sell_q = [],
     trades = [\<lparr>trade_price = 100.5, trade_size = 1\<rparr>],
     gone = [\<lparr>oid = ''s1'', side = SELL, price = 100, osize = 1, filled = 1,
               status = Filled, ts = t2\<rparr>]\<rparr>)"
  by (simp add: sim_eval)

text \<open>
  C9 (\<^verbatim>\<open>get_top\<close>).  The call leaves the exchange as it is; the bid is the price of the
  head of the BUY queue, or 49999.5 when that queue is empty; the ask is the price of the
  head of the SELL queue, or 50000.5 when that queue is empty.
\<close>

theorem get_top_heads_or_fallback:
  "snd (SimExchange_get_top symbol ex) = ex
   \<and> bid (fst (SimExchange_get_top symbol ex)) =
       (if buy_q ex = [] then 49999.5 else price (hd (buy_q ex)))
   \<and> ask (fst (SimExchange_get_top symbol ex)) =
       (if sell_q ex = [] then 50000.5 else price (hd (sell_q ex)))"
  by (simp add: SimExchange_get_top_def Let_def split: list.splits)

section \<open>\<^verbatim>\<open>LiveExchange\<close>\<close>

lemma lower_true [simp]: "lower ''true'' = ''true''"
  by (simp add: lower_def lower_char_def)

text \<open>
  C7 (paper mode by default, no start without it).  The constructor's default for
  \<^verbatim>\<open>paper\<close> is true; without \<^verbatim>\<open>EX_PAPER\<close> in the environment, live mode builds a paper
  exchange and connects; \<^verbatim>\<open>connect\<close> of a non-paper exchange raises; in live mode with
  \<^verbatim>\<open>EX_PAPER\<close> not spelling \<open>true\<close>, \<^verbatim>\<open>run_strategy\<close> ends with that exception before the
  trading loop; and the loop is never entered with a non-paper live exchange.
\<close>

theorem live_exchange_paper_or_refuse:
  "paper (LiveExchange_new api_key api_secret None)
   \<and> (mode \<noteq> ''sim'' \<and> env ''EX_PAPER'' = None \<longrightarrow>
        run_strategy_connect mode env =
          Inr (Live \<lparr>key = getenv env ''EX_KEY'' [], secret = getenv env ''EX_SECRET'' [],
                     paper = True\<rparr>))
   \<and> (\<not> paper lx \<longrightarrow> (\<exists>msg. LiveExchange_connect lx = Inl (RuntimeError msg)))
   \<and> (mode \<noteq> ''sim'' \<and> lower (getenv env ''EX_PAPER'' ''true'') \<noteq> ''true'' \<longrightarrow>
        (\<exists>msg. run_strategy_connect mode env = Inl (RuntimeError msg)))
   \<and> (\<forall>lx'. run_strategy_connect mode env = Inr (Live lx') \<longrightarrow> paper lx')"
  by (auto simp: LiveExchange_new_def run_strategy_connect_def LiveExchange_connect_def
      getenv_def Let_def split: if_splits)

theorem live_exchange_paper_or_refuse_witness:
  "run_strategy_connect ''live'' Map.empty = Inr (Live \<lparr>key = [], secret = [], paper = True\<rparr>)
   \<and> (\<exists>msg. LiveExchange_connect \<lparr>key = ''k'', secret = ''s'', paper = False\<rparr>
          = Inl (RuntimeError msg))
   \<and> (\<exists>msg. run_strategy_connect ''live'' [''EX_PAPER'' \<mapsto> ''False''] = Inl (RuntimeError msg))"
  using live_exchange_paper_or_refuse
    [where mode = "''live''" and env = Map.empty
       and lx = "\<lparr>key = ''k'', secret = ''s'', paper = False\<rparr>"]
    live_exchange_paper_or_refuse
    [where mode = "''live''" and env = "[''EX_PAPER'' \<mapsto> ''False'']"
       and lx = "\<lparr>key = ''k'', secret = ''s'', paper = False\<rparr>"]
  by (simp add: getenv_def lower_def lower_char_def)

text \<open>
  C8 (errors of the unimplemented operations).  As stated the claim fails: with
  \<^verbatim>\<open>paper\<close> false, \<^verbatim>\<open>place_limit\<close> raises a \<^verbatim>\<open>RuntimeError\<close>, the kind of error
  that \<^verbatim>\<open>connect\<close> raises.
\<close>

theorem live_place_limit_error_kind_of_connect:
  "LiveExchange_place_limit \<lparr>key = ''k'', secret = ''s'', paper = False\<rparr>
       ''BTC/USDT'' BUY 100 1 ''c1''
     = Inl (RuntimeError ''Live order placement not implemented'')
   \<and> LiveExchange_connect \<lparr>key = ''k'', secret = ''s'', paper = False\<rparr>
     = Inl (RuntimeError
         ''Live trading disabled in this stub. Enable paper mode or implement real API calls at your own risk.'')
   \<and> kind_of (RuntimeError ''Live order placement not implemented'')
     = kind_of (RuntimeError
         ''Live trading disabled in this stub. Enable paper mode or implement real API calls at your own risk.'')"
  by (simp add: LiveExchange_place_limit_def LiveExchange_connect_def)

text \<open>
  C8, amended.  \<^verbatim>\<open>get_top\<close> always raises a \<^verbatim>\<open>NotImplementedError\<close>, whose class is not
  the class \<^verbatim>\<open>RuntimeError\<close> of the error of \<^verbatim>\<open>connect\<close> (it is a subclass of it in
  Python).  With \<^verbatim>\<open>paper\<close> false, \<^verbatim>\<open>place_limit\<close> and
  \<^verbatim>\<open>cancel\<close> raise at once, an error of the same kind as the error of \<^verbatim>\<open>connect\<close> and
  different from it by its message only.
\<close>

theorem live_unimplemented_errors:
  "(\<exists>g. LiveExchange_get_top lx symbol = Inl g \<and> kind_of g = KNotImplementedError)
   \<and> (\<not> paper lx \<longrightarrow>
        (\<exists>c p x.
           LiveExchange_connect lx = Inl c
         \<and> LiveExchange_place_limit lx symbol sd px sz cid = Inl p
         \<and> LiveExchange_cancel lx order_id = Inl x
         \<and> kind_of c = KRuntimeError
         \<and> kind_of p = KRuntimeError \<and> kind_of x = KRuntimeError
         \<and> p \<noteq> c \<and> x \<noteq> c))"
  by (simp add: LiveExchange_connect_def LiveExchange_get_top_def
      LiveExchange_place_limit_def LiveExchange_cancel_def)

theorem live_unimplemented_errors_witness:
  "(\<exists>g. LiveExchange_get_top \<lparr>key = ''k'', secret = ''s'', paper = False\<rparr> ''BTC/USDT'' = Inl g
        \<and> kind_of g = KNotImplementedError)
   \<and> (\<exists>c p x.
        LiveExchange_connect \<lparr>key = ''k'', secret = ''s'', paper = False\<rparr> = Inl c
      \<and> LiveExchange_place_limit \<lparr>key = ''k'', secret = ''s'', paper = False\<rparr>
            ''BTC/USDT'' BUY 100 1 ''c1'' = Inl p
      \<and> LiveExchange_cancel \<lparr>key = ''k'', secret = ''s'', paper = False\<rparr> ''c1'' = Inl x
      \<and> kind_of c = KRuntimeError
      \<and> kind_of p = KRuntimeError \<and> kind_of x = KRuntimeError
      \<and> p \<noteq> c \<and> x \<noteq> c)"
  using live_unimplemented_errors
    [of "\<lparr>key = ''k'', secret = ''s'', paper = False\<rparr>" "''BTC/USDT''" BUY 100 1 "''c1''" "''c1''"]
  by simp

section \<open>The matching loop\<close>






section \<open>\<^verbatim>\<open>cancel\<close>\<close>

lemma find_open_Some:
  "find_open order_id q = Some i \<Longrightarrow>
     i < length q \<and> oid (q ! i) = order_id \<and> status (q ! i) = Open"
proof (induction q arbitrary: i)
  case Nil
  then show ?case by simp
next
  case (Cons x q)
  then show ?case by (cases i) (auto split: if_splits)
qed

lemma find_open_None:
  "find_open order_id q = None \<longleftrightarrow> (\<forall>x\<in>set q. \<not> (oid x = order_id \<and> status x = Open))"
  by (induction q) auto

lemma cancel_in_None:
  "cancel_in order_id q = None \<longleftrightarrow> (\<forall>x\<in>set q. \<not> (oid x = order_id \<and> status x = Open))"
proof -
  have "cancel_in order_id q = None \<longleftrightarrow> find_open order_id q = None"
    by (simp add: cancel_in_def Let_def split: option.splits)
  then show ?thesis by (simp add: find_open_None)
qed

lemma cancel_in_Some:
  assumes "cancel_in order_id q = Some (x, r)"
  obtains i where "i < length q" "find_open order_id q = Some i"
    "oid (q ! i) = order_id" "status (q ! i) = Open"
    "x = (q ! i)\<lparr>status := Cancelled\<rparr>" "r = Inr (remove1 x (q[i := x]))"
proof -
  from assms obtain i where i: "find_open order_id q = Some i"
    and x: "x = (q ! i)\<lparr>status := Cancelled\<rparr>" and r: "r = deque_remove x (q[i := x])"
    by (auto simp: cancel_in_def Let_def split: option.splits)
  from i have l: "i < length q" "oid (q ! i) = order_id" "status (q ! i) = Open"
    using find_open_Some by blast+
  from l(1) have "x \<in> set (q[i := x])" by (simp add: set_update_memI)
  with r have "r = Inr (remove1 x (q[i := x]))" by (simp add: deque_remove_def)
  with i l x show thesis using that [of i] by blast
qed

lemma cancel_cases:
  obtains
    (buy) x q' where "cancel_in order_id (buy_q ex) = Some (x, Inr q')"
      "SimExchange_cancel order_id ex = Inr (ex\<lparr>buy_q := q', gone := gone ex @ [x]\<rparr>)"
  | (sell) x q' where "cancel_in order_id (buy_q ex) = None"
      "cancel_in order_id (sell_q ex) = Some (x, Inr q')"
      "SimExchange_cancel order_id ex = Inr (ex\<lparr>sell_q := q', gone := gone ex @ [x]\<rparr>)"
  | (none) "cancel_in order_id (buy_q ex) = None" "cancel_in order_id (sell_q ex) = None"
      "SimExchange_cancel order_id ex = Inr ex"
proof (cases "cancel_in order_id (buy_q ex)")
  case None
  show ?thesis
  proof (cases "cancel_in order_id (sell_q ex)")
    case N2: None
    with None have "SimExchange_cancel order_id ex = Inr ex"
      by (simp add: SimExchange_cancel_def)
    with None N2 show ?thesis by (rule none)
  next
    case (Some p)
    then obtain x r where p: "cancel_in order_id (sell_q ex) = Some (x, r)" by (cases p) auto
    then obtain q' where "r = Inr q'" by (auto elim: cancel_in_Some)
    with None p show ?thesis by (intro sell [of x q']) (simp_all add: SimExchange_cancel_def)
  qed
next
  case (Some p)
  then obtain x r where p: "cancel_in order_id (buy_q ex) = Some (x, r)" by (cases p) auto
  then obtain q' where "r = Inr q'" by (auto elim: cancel_in_Some)
  with p show ?thesis by (intro buy [of x q']) (simp_all add: SimExchange_cancel_def)
qed

lemma cancel_total: "\<exists>ex'. SimExchange_cancel order_id ex = Inr ex'"
  by (rule cancel_cases [of order_id ex]) auto

section \<open>Sorted queues and the absence of a cross\<close>






















lemmas cancel_eval = SimExchange_cancel_def cancel_in_def deque_remove_def




section \<open>Conservation of filled quantity\<close>



lemma total_traded_sim_insert [simp]: "total_traded (sim_insert ord ex) = total_traded ex"
  by (cases "side ord") (simp_all add: total_traded_def sim_insert_def)











section \<open>Cancelling twice\<close>

lemma filter_update_drops_one:
  assumes "i < length q" "P (q ! i)" "\<not> P x"
  shows "Suc (length (filter P (q[i := x]))) = length (filter P q)"
proof -
  from assms(1) have "q = take i q @ q ! i # drop (Suc i) q" by (rule id_take_nth_drop)
  then have "length (filter P q) = length (filter P (take i q @ q ! i # drop (Suc i) q))"
    by simp
  moreover from assms(1) have "q[i := x] = take i q @ x # drop (Suc i) q"
    by (rule upd_conv_take_nth_drop)
  ultimately show ?thesis using assms(2,3) by simp
qed

lemma filter_remove1_other: "\<not> P x \<Longrightarrow> filter P (remove1 x q) = filter P q"
  by (induction q) auto

text \<open>A hit of \<^verbatim>\<open>cancel\<close> in a queue takes one open order with that id out of it.\<close>

lemma cancel_in_open_count:
  assumes "cancel_in order_id q = Some (x, Inr q')"
  shows "Suc (length (filter (\<lambda>y. oid y = order_id \<and> status y = Open) q'))
       = length (filter (\<lambda>y. oid y = order_id \<and> status y = Open) q)"
proof -
  let ?P = "\<lambda>y. oid y = order_id \<and> status y = Open"
  from assms obtain i where i: "i < length q" "oid (q ! i) = order_id" "status (q ! i) = Open"
    "x = (q ! i)\<lparr>status := Cancelled\<rparr>" "q' = remove1 x (q[i := x])"
    by (auto elim: cancel_in_Some)
  from i(4) have nx: "\<not> ?P x" by simp
  then have "filter ?P q' = filter ?P (q[i := x])"
    unfolding i(5) by (rule filter_remove1_other)
  moreover have "Suc (length (filter ?P (q[i := x]))) = length (filter ?P q)"
    using i(1) _ nx by (rule filter_update_drops_one) (simp add: i)
  ultimately show ?thesis by simp
qed

lemma cancel_in_None_filter:
  "cancel_in order_id q = None \<longleftrightarrow> filter (\<lambda>y. oid y = order_id \<and> status y = Open) q = []"
  by (simp add: cancel_in_None filter_empty_conv)

lemma cancel_noop:
  "open_with_id order_id ex = [] \<Longrightarrow> SimExchange_cancel order_id ex = Inr ex"
  by (simp add: open_with_id_def SimExchange_cancel_def cancel_in_None_filter [symmetric])

lemma cancel_twice:
  assumes "length (open_with_id order_id ex) \<le> 1"
    and "SimExchange_cancel order_id ex = Inr ex1"
  shows "SimExchange_cancel order_id ex1 = Inr ex1"
proof (rule cancel_cases [of order_id ex])
  fix x q'
  assume c: "cancel_in order_id (buy_q ex) = Some (x, Inr q')"
    and r: "SimExchange_cancel order_id ex = Inr (ex\<lparr>buy_q := q', gone := gone ex @ [x]\<rparr>)"
  from r assms(2) have e: "ex1 = ex\<lparr>buy_q := q', gone := gone ex @ [x]\<rparr>" by simp
  from cancel_in_open_count [OF c] assms(1)
  have "length (open_with_id order_id ex1) = 0"
    by (simp add: open_with_id_def e del: length_0_conv)
  then show ?thesis by (simp add: cancel_noop)
next
  fix x q'
  assume n: "cancel_in order_id (buy_q ex) = None"
    and c: "cancel_in order_id (sell_q ex) = Some (x, Inr q')"
    and r: "SimExchange_cancel order_id ex = Inr (ex\<lparr>sell_q := q', gone := gone ex @ [x]\<rparr>)"
  from r assms(2) have e: "ex1 = ex\<lparr>sell_q := q', gone := gone ex @ [x]\<rparr>" by simp
  from cancel_in_open_count [OF c] assms(1) n
  have "length (open_with_id order_id ex1) = 0"
    by (simp add: open_with_id_def e cancel_in_None_filter del: length_0_conv)
  then show ?thesis by (simp add: cancel_noop)
next
  assume "SimExchange_cancel order_id ex = Inr ex"
  with assms(2) show ?thesis by simp
qed

text \<open>
  C6 (cancel is idempotent).  As stated the claim fails when two resting orders were
  placed under one id: the first \<^verbatim>\<open>cancel("x")\<close> removes the order at price 100, the
  second one removes the order at price 99, so two calls do not leave the book that one
  call leaves.
\<close>

theorem cancel_twice_removes_second_order:
  "run dup_id_calls SimExchange_init = Inr dup_id_book
   \<and> SimExchange_cancel ''x'' dup_id_book = Inr dup_id_cancelled_once
   \<and> SimExchange_cancel ''x'' dup_id_cancelled_once = Inr dup_id_cancelled_twice
   \<and> buy_q dup_id_cancelled_twice \<noteq> buy_q dup_id_cancelled_once"
  by (simp add: dup_id_calls_def dup_id_book_def dup_id_cancelled_once_def
      dup_id_cancelled_twice_def sim_eval cancel_eval)

text \<open>
  C6, amended.  \<^verbatim>\<open>cancel\<close> never raises.  When at most one open order of the book
  carries the id, a second \<^verbatim>\<open>cancel\<close> with that id leaves the state that the first one
  left.  When no open order of the book carries the id (it is absent, or its order is
  filled or cancelled), \<^verbatim>\<open>cancel\<close> changes nothing.
\<close>

theorem cancel_idempotent_unique_id:
  "(\<exists>ex1. SimExchange_cancel order_id ex = Inr ex1)
   \<and> (length (open_with_id order_id ex) \<le> 1 \<longrightarrow>
        (\<exists>ex1. SimExchange_cancel order_id ex = Inr ex1
             \<and> SimExchange_cancel order_id ex1 = Inr ex1))
   \<and> (open_with_id order_id ex = [] \<longrightarrow> SimExchange_cancel order_id ex = Inr ex)"
  using cancel_total [of order_id ex] cancel_twice [of order_id ex] cancel_noop [of order_id ex]
  by blast

theorem cancel_idempotent_unique_id_witness:
  "(\<exists>ex1. SimExchange_cancel ''b1'' scenario_C_book = Inr ex1
         \<and> buy_q ex1 = [] \<and> SimExchange_cancel ''b1'' ex1 = Inr ex1)
   \<and> SimExchange_cancel ''s1'' scenario_C_book = Inr scenario_C_book
   \<and> SimExchange_cancel ''zz'' scenario_C_book = Inr scenario_C_book"
proof -
  have h: "length (open_with_id ''b1'' scenario_C_book) \<le> 1"
    "open_with_id ''s1'' scenario_C_book = []" "open_with_id ''zz'' scenario_C_book = []"
    by (simp_all add: open_with_id_def scenario_C_book_def)
  have b: "\<And>ex1. SimExchange_cancel ''b1'' scenario_C_book = Inr ex1 \<Longrightarrow> buy_q ex1 = []"
    by (auto simp: scenario_C_book_def cancel_eval)
  from cancel_idempotent_unique_id [of "''b1''" scenario_C_book]
    cancel_idempotent_unique_id [of "''s1''" scenario_C_book]
    cancel_idempotent_unique_id [of "''zz''" scenario_C_book] h b
  show ?thesis by blast
qed

section \<open>Bounds on \<open>filled\<close> and the status of an order\<close>













section \<open>Orders that left the book are never touched again\<close>







section \<open>Every order created is resting or in the history\<close>


lemma order_key_fill [simp]: "order_key (fill qty x) = order_key x"
  by (simp add: order_key_def)











end
